theory Spec2Isabelle
  imports Complex_Main
begin

section \<open>JavaScript values and numbers\<close>

text \<open>
  The receipt component reads an order that may be missing altogether, whose cart may be
  missing, whose cart entries may be \<open>null\<close>, and whose numeric fields may be missing
  or \<open>null\<close>. A possibly missing value of type \<open>'a\<close> is a value of \<open>'a js\<close>.

  Numbers that the order carries are finite; they are modelled as exact rationals, so the
  rounding of IEEE doubles is not part of the model. The results of arithmetic are of
  type \<open>jsnum\<close>, which adds \<open>NaN\<close>: this is what JavaScript arithmetic yields
  on \<open>undefined\<close>.
\<close>

datatype 'a js = Undefined | Null | Val 'a

datatype jsnum = Fin rat | NaN

datatype error = TypeError

fun jadd :: "jsnum \<Rightarrow> jsnum \<Rightarrow> jsnum" where
  "jadd (Fin a) (Fin b) = Fin (a + b)"
| "jadd _ _ = NaN"

fun jsub :: "jsnum \<Rightarrow> jsnum \<Rightarrow> jsnum" where
  "jsub (Fin a) (Fin b) = Fin (a - b)"
| "jsub _ _ = NaN"

fun jmul :: "jsnum \<Rightarrow> jsnum \<Rightarrow> jsnum" where
  "jmul (Fin a) (Fin b) = Fin (a * b)"
| "jmul _ _ = NaN"

text \<open>The only division of the source is by the literal \<open>100\<close>.\<close>

fun div100 :: "jsnum \<Rightarrow> jsnum" where
  "div100 (Fin a) = Fin (a / 100)"
| "div100 NaN = NaN"

text \<open>\<open>ToNumber\<close> as an arithmetic operator applies it to an operand.\<close>

fun ToNumber :: "rat js \<Rightarrow> jsnum" where
  "ToNumber Undefined = NaN"
| "ToNumber Null = Fin 0"
| "ToNumber (Val r) = Fin r"

text \<open>Truthiness of a numeric field: missing, \<open>null\<close> and \<open>0\<close> are falsy.\<close>

fun truthy :: "rat js \<Rightarrow> bool" where
  "truthy (Val r) = (r \<noteq> 0)"
| "truthy _ = False"

text \<open>\<open>x || 0\<close>: the operand itself when truthy, else the number \<open>0\<close>.\<close>

definition or_zero :: "rat js \<Rightarrow> rat" where
  "or_zero x = (if truthy x then (case x of Val r \<Rightarrow> r | _ \<Rightarrow> 0) else 0)"

text \<open>\<open>xs || []\<close>: an array is always truthy.\<close>

fun or_empty :: "'a list js \<Rightarrow> 'a list" where
  "or_empty (Val xs) = xs"
| "or_empty _ = []"

text \<open>\<open>x?.f\<close> yields \<open>undefined\<close> on a missing object; \<open>x.f\<close> throws there.\<close>

fun opt_chain :: "('a \<Rightarrow> 'b js) \<Rightarrow> 'a js \<Rightarrow> 'b js" where
  "opt_chain f (Val x) = f x"
| "opt_chain f _ = Undefined"

fun get_prop :: "('a \<Rightarrow> 'b) \<Rightarrow> 'a js \<Rightarrow> error + 'b" where
  "get_prop f (Val x) = Inr (f x)"
| "get_prop f _ = Inl TypeError"

section \<open>Data model\<close>

record CartItem =
  name :: "string js"
  price :: "rat js"
  quantity :: "rat js"
  description :: "string js"
  sgst :: "rat js"
  cgst :: "rat js"

record CustomerDetails =
  doctorName :: "string js"
  customerName :: "string js"
  customerMobile :: "string js"

record Order =
  order_id :: int
  invoice_number :: string
  order_date :: string
  order_time :: string
  order_total :: "rat js"
  paymentMethod :: string
  cart :: "CartItem js list js"
  customerDetails :: "CustomerDetails js"
  discount_percentage :: "rat js"

record ItemGST =
  item_sgst :: jsnum
  item_cgst :: jsnum

record GstSummary =
  baseAmount :: jsnum
  sgstAmount :: jsnum
  cgstAmount :: jsnum
  sgstRates :: "rat list"
  cgstRates :: "rat list"

section \<open>The calculator of \<open>OrderHistoryReceipt\<close>\<close>

text \<open>
  \<open>(order.cart || []).reduce((sum, item) => sum + (item?.quantity || 0) * (item?.price || 0), 0)\<close>
\<close>

definition totalStep :: "jsnum \<Rightarrow> CartItem js \<Rightarrow> jsnum" where
  "totalStep acc item =
     jadd acc (jmul (Fin (or_zero (opt_chain quantity item)))
                    (Fin (or_zero (opt_chain price item))))"

definition totalAmount :: "Order \<Rightarrow> jsnum" where
  "totalAmount order = foldl totalStep (Fin 0) (or_empty (cart order))"

text \<open>
  \<open>order.discount_percentage ? totalAmount * (order.discount_percentage / 100) : 0\<close>
\<close>

definition discountAmount :: "Order \<Rightarrow> jsnum" where
  "discountAmount order =
     (if truthy (discount_percentage order)
      then jmul (totalAmount order) (div100 (ToNumber (discount_percentage order)))
      else Fin 0)"

definition finalAmount :: "Order \<Rightarrow> jsnum" where
  "finalAmount order = jsub (totalAmount order) (discountAmount order)"

text \<open>
  \<open>calculateItemGST\<close> reads \<open>item.price\<close> and \<open>item.quantity\<close> without a default,
  and \<open>item.sgst || 0\<close>, \<open>item.cgst || 0\<close> with one.
\<close>

definition calculateItemGST :: "CartItem js \<Rightarrow> error + ItemGST" where
  "calculateItemGST item =
     (case get_prop price item of
        Inl e \<Rightarrow> Inl e
      | Inr itemPrice \<Rightarrow>
     (case get_prop quantity item of
        Inl e \<Rightarrow> Inl e
      | Inr itemQuantity \<Rightarrow>
     (case get_prop sgst item of
        Inl e \<Rightarrow> Inl e
      | Inr s \<Rightarrow>
     (case get_prop cgst item of
        Inl e \<Rightarrow> Inl e
      | Inr c \<Rightarrow>
          (let base = jmul (ToNumber itemPrice) (ToNumber itemQuantity)
           in Inr \<lparr> item_sgst = div100 (jmul base (Fin (or_zero s))),
                    item_cgst = div100 (jmul base (Fin (or_zero c))) \<rparr>)))))"

text \<open>
  \<open>if (rate > 0 && !rates.includes(rate)) rates.push(rate)\<close>: the array is extended
  at its end, in place; the model returns the new array.
\<close>

definition push_rate :: "rat \<Rightarrow> rat list \<Rightarrow> rat list" where
  "push_rate rate rates =
     (if rate > 0 \<and> rate \<notin> set rates then rates @ [rate] else rates)"

text \<open>The body of the reducer that builds \<open>gstSummary\<close>.\<close>

definition gstStep :: "GstSummary \<Rightarrow> CartItem js \<Rightarrow> error + GstSummary" where
  "gstStep summary item =
     (case calculateItemGST item of
        Inl e \<Rightarrow> Inl e
      | Inr g \<Rightarrow>
     (case get_prop quantity item of
        Inl e \<Rightarrow> Inl e
      | Inr q \<Rightarrow>
     (case get_prop price item of
        Inl e \<Rightarrow> Inl e
      | Inr p \<Rightarrow>
     (case get_prop sgst item of
        Inl e \<Rightarrow> Inl e
      | Inr s \<Rightarrow>
     (case get_prop cgst item of
        Inl e \<Rightarrow> Inl e
      | Inr c \<Rightarrow>
          (let itemTotal = jmul (ToNumber q) (ToNumber p);
               sgstRate = or_zero s;
               cgstRate = or_zero c
           in Inr \<lparr> baseAmount = jadd (baseAmount summary) itemTotal,
                    sgstAmount = jadd (sgstAmount summary) (item_sgst g),
                    cgstAmount = jadd (cgstAmount summary) (item_cgst g),
                    sgstRates = push_rate sgstRate (sgstRates summary),
                    cgstRates = push_rate cgstRate (cgstRates summary) \<rparr>))))))"

text \<open>\<open>reduce\<close> with a callback that may throw: the first exception ends the fold.\<close>

fun gstReduce :: "GstSummary \<Rightarrow> CartItem js list \<Rightarrow> error + GstSummary" where
  "gstReduce summary [] = Inr summary"
| "gstReduce summary (item # items) =
     (case gstStep summary item of
        Inl e \<Rightarrow> Inl e
      | Inr summary' \<Rightarrow> gstReduce summary' items)"

definition gstInit :: GstSummary where
  "gstInit = \<lparr> baseAmount = Fin 0, sgstAmount = Fin 0, cgstAmount = Fin 0,
               sgstRates = [], cgstRates = [] \<rparr>"

definition gstSummary :: "Order \<Rightarrow> error + GstSummary" where
  "gstSummary order = gstReduce gstInit (or_empty (cart order))"

section \<open>Rate display\<close>

text \<open>
  \<open>Number.prototype.toString\<close> in base ten, for the numbers that a JSON document
  writes in plain decimal notation: an optional minus sign, the integer digits, and the
  digits of the fraction when there is one. The exponent notation of very large and
  very small magnitudes is outside the model, and the fraction stops after twenty digits.
\<close>

definition digit_char :: "nat \<Rightarrow> char" where
  "digit_char d = ''0123456789'' ! (d mod 10)"

fun nat_digits :: "nat \<Rightarrow> string" where
  "nat_digits n =
     (if n < 10 then [digit_char n] else nat_digits (n div 10) @ [digit_char (n mod 10)])"

fun frac_digits :: "nat \<Rightarrow> rat \<Rightarrow> string" where
  "frac_digits 0 f = []"
| "frac_digits (Suc k) f =
     (if f = 0 then []
      else digit_char (nat \<lfloor>f * 10\<rfloor>) # frac_digits k (f * 10 - of_int \<lfloor>f * 10\<rfloor>))"

definition unsigned_toString :: "rat \<Rightarrow> string" where
  "unsigned_toString r =
     (let f = r - of_int \<lfloor>r\<rfloor>
      in nat_digits (nat \<lfloor>r\<rfloor>) @ (if f = 0 then [] else ''.'' @ frac_digits 20 f))"

definition Number_toString :: "rat \<Rightarrow> string" where
  "Number_toString r =
     (if r < 0 then ''-'' @ unsigned_toString (- r) else unsigned_toString r)"

text \<open>\<open>Math.min(...rates)\<close> and \<open>Math.max(...rates)\<close> on a non-empty array.\<close>

fun Math_min :: "rat list \<Rightarrow> rat" where
  "Math_min [] = 0"
| "Math_min (x # xs) = fold min xs x"

fun Math_max :: "rat list \<Rightarrow> rat" where
  "Math_max [] = 0"
| "Math_max (x # xs) = fold max xs x"

text \<open>
  \<open>formatGSTRates\<close> tests the length \<open>0\<close>, then the length \<open>1\<close>, and otherwise
  builds the template string from the minimum and the maximum. The two calls on the
  empty array are never reached.
\<close>

fun formatGSTRates :: "rat list \<Rightarrow> string" where
  "formatGSTRates [] = ''0''"
| "formatGSTRates [r] = Number_toString r"
| "formatGSTRates rates =
     Number_toString (Math_min rates) @ ''-'' @ Number_toString (Math_max rates)"

section \<open>The component\<close>

text \<open>
  What the totals section of the receipt shows, before the figures are rounded for
  display: the discount row only when \<open>order.discount_percentage > 0\<close>.
\<close>

record Totals =
  shownTotal :: jsnum
  shownDiscount :: "jsnum option"
  taxableValue :: jsnum
  cgstLabel :: string
  shownCgst :: jsnum
  sgstLabel :: string
  shownSgst :: jsnum
  totalTax :: jsnum
  payable :: jsnum

fun greater_zero :: "rat js \<Rightarrow> bool" where
  "greater_zero (Val r) = (r > 0)"
| "greater_zero _ = False"

definition totals :: "Order \<Rightarrow> error + Totals" where
  "totals order =
     (case gstSummary order of
        Inl e \<Rightarrow> Inl e
      | Inr g \<Rightarrow>
          Inr \<lparr> shownTotal = totalAmount order,
                shownDiscount =
                  (if greater_zero (discount_percentage order)
                   then Some (discountAmount order) else None),
                taxableValue =
                  jsub (finalAmount order) (jadd (cgstAmount g) (sgstAmount g)),
                cgstLabel = formatGSTRates (cgstRates g),
                shownCgst = cgstAmount g,
                sgstLabel = formatGSTRates (sgstRates g),
                shownSgst = sgstAmount g,
                totalTax = jadd (cgstAmount g) (sgstAmount g),
                payable = finalAmount order \<rparr>)"

text \<open>
  \<open>if (!order) return null\<close> comes before every computation. \<open>None\<close> is the
  \<open>null\<close> that the component returns, \<open>Inl\<close> an exception that escapes it.
\<close>

fun OrderHistoryReceipt :: "Order js \<Rightarrow> error + Totals option" where
  "OrderHistoryReceipt (Val order) =
     (case totals order of Inl e \<Rightarrow> Inl e | Inr t \<Rightarrow> Inr (Some t))"
| "OrderHistoryReceipt _ = Inr None"

section \<open>Orders used as examples\<close>

definition item_of :: "rat js \<Rightarrow> rat js \<Rightarrow> rat js \<Rightarrow> rat js \<Rightarrow> CartItem" where
  "item_of p q s c =
     \<lparr> name = Val ''item'', price = p, quantity = q, description = Undefined,
       sgst = s, cgst = c \<rparr>"

definition order_of :: "CartItem js list js \<Rightarrow> rat js \<Rightarrow> Order" where
  "order_of c d =
     \<lparr> order_id = 1, invoice_number = ''INV-1'', order_date = ''2024-01-01'',
       order_time = ''10:00'', order_total = Undefined, paymentMethod = ''cash'',
       cart = c, customerDetails = Null, discount_percentage = d \<rparr>"

definition scenario_order :: "rat js \<Rightarrow> Order" where
  "scenario_order d = order_of (Val [Val (item_of (Val 100) (Val 2) (Val 9) (Val 9))]) d"

definition rates_order :: Order where
  "rates_order =
     order_of (Val [Val (item_of (Val 10) (Val 1) (Val 5) Undefined),
                    Val (item_of (Val 20) (Val 1) (Val 5) (Val 0)),
                    Val (item_of (Val 30) (Val 2) (Val 12) Null)]) Undefined"

definition missing_price_order :: Order where
  "missing_price_order =
     order_of (Val [Val (item_of Undefined (Val 2) (Val 9) (Val 9))]) (Val 0)"

definition missing_quantity_order :: Order where
  "missing_quantity_order =
     order_of (Val [Val (item_of (Val 100) Undefined (Val 9) (Val 9))]) (Val 0)"

definition null_item_order :: Order where
  "null_item_order = order_of (Val [Null]) (Val 0)"

definition null_price_order :: Order where
  "null_price_order =
     order_of (Val [Val (item_of Null (Val 2) (Val 9) (Val 9)),
                    Val (item_of (Val 50) (Val 3) Undefined (Val 6))]) (Val 5)"

section \<open>The specification's operations\<close>

text \<open>
  The definitions of this section follow the wording of the specification, not the
  source; the theorems below compare them with the calculator.

  A missing numeric field counts as zero.
\<close>

definition zero_if_missing :: "rat js \<Rightarrow> rat" where
  "zero_if_missing x = (case x of Val r \<Rightarrow> r | _ \<Rightarrow> 0)"

text \<open>Quantity times price of one cart entry; an entry that is missing has no fields.\<close>

definition line_total :: "CartItem js \<Rightarrow> rat" where
  "line_total item =
     zero_if_missing (opt_chain quantity item) * zero_if_missing (opt_chain price item)"

text \<open>The sum over the items, and zero for an empty or absent cart.\<close>

definition computeTotalAmount :: "CartItem js list js \<Rightarrow> rat" where
  "computeTotalAmount c =
     (case c of Val items \<Rightarrow> sum_list (map line_total items) | _ \<Rightarrow> 0)"

text \<open>
  The total times the percentage over a hundred when the percentage is neither zero nor
  absent, and zero otherwise; no clamping.
\<close>

definition computeDiscountAmount :: "rat \<Rightarrow> rat js \<Rightarrow> rat" where
  "computeDiscountAmount t d =
     (case d of Val p \<Rightarrow> (if p = 0 then 0 else t * p / 100) | _ \<Rightarrow> 0)"

text \<open>
  One tax component of one item: price times quantity, times the rate (zero when
  absent), over a hundred. The discount does not occur in it.
\<close>

definition item_tax :: "(CartItem \<Rightarrow> rat js) \<Rightarrow> CartItem \<Rightarrow> jsnum" where
  "item_tax rate it =
     div100 (jmul (jmul (ToNumber (price it)) (ToNumber (quantity it)))
                  (Fin (or_zero (rate it))))"

text \<open>The elements of a list in the order of their first occurrence, each once.\<close>

primrec first_seen :: "rat list \<Rightarrow> rat list" where
  "first_seen [] = []"
| "first_seen (x # xs) = x # filter (\<lambda>y. y \<noteq> x) (first_seen xs)"

text \<open>The strictly positive rates of a cart, in first-seen order, without duplicates.\<close>

definition seen_rates :: "(CartItem \<Rightarrow> rat js) \<Rightarrow> CartItem js list \<Rightarrow> rat list" where
  "seen_rates rate items =
     first_seen (filter (\<lambda>r. r > 0) (map (\<lambda>item. or_zero (opt_chain rate item)) items))"

text \<open>A cart entry that is an object whose quantity and price are both there.\<close>

definition fields_present :: "CartItem js \<Rightarrow> bool" where
  "fields_present item =
     (case item of
        Val it \<Rightarrow> quantity it \<noteq> Undefined \<and> price it \<noteq> Undefined
      | _ \<Rightarrow> False)"

section \<open>Basic facts\<close>

lemmas eval_defs =
  order_of_def item_of_def totals_def gstSummary_def
  gstInit_def gstStep_def calculateItemGST_def push_rate_def totalAmount_def totalStep_def
  discountAmount_def finalAmount_def Let_def
  Number_toString_def unsigned_toString_def digit_char_def

lemma or_zero_simps [simp]:
  "or_zero Undefined = 0" "or_zero Null = 0" "or_zero (Val r) = r"
  by (simp_all add: or_zero_def)

lemma or_zero_missing: "or_zero x = zero_if_missing x"
  by (cases x) (simp_all add: zero_if_missing_def)

lemma totalStep_Fin: "totalStep (Fin a) item = Fin (a + line_total item)"
  by (simp add: totalStep_def line_total_def or_zero_missing)

lemma foldl_totalStep:
  "foldl totalStep (Fin a) items = Fin (a + sum_list (map line_total items))"
  by (induction items arbitrary: a) (simp_all add: totalStep_Fin add.assoc)

lemma totalAmount_sum: "totalAmount order = Fin (computeTotalAmount (cart order))"
  by (cases "cart order") (simp_all add: totalAmount_def computeTotalAmount_def foldl_totalStep)

lemma discountAmount_eq:
  "discountAmount order =
     Fin (computeDiscountAmount (computeTotalAmount (cart order)) (discount_percentage order))"
  by (cases "discount_percentage order")
     (simp_all add: discountAmount_def computeDiscountAmount_def totalAmount_sum)

lemma Math_min_Min: "Math_min (x # xs) = Min (set (x # xs))"
  unfolding Math_min.simps by (rule Min.set_eq_fold [symmetric])

lemma Math_max_Max: "Math_max (x # xs) = Max (set (x # xs))"
  unfolding Math_max.simps by (rule Max.set_eq_fold [symmetric])

section \<open>Totals and discount\<close>

text \<open>
  Claim C6. The total amount is the sum over all cart entries of quantity times price,
  where a missing quantity or price counts as zero, and it is exactly zero for an empty
  cart and for an absent cart (\<open>undefined\<close> or \<open>null\<close>).
\<close>

theorem totalAmount_is_defaulted_sum:
  "totalAmount order = Fin (computeTotalAmount (cart order))
   \<and> totalAmount (order\<lparr>cart := Val []\<rparr>) = Fin 0
   \<and> totalAmount (order\<lparr>cart := Undefined\<rparr>) = Fin 0
   \<and> totalAmount (order\<lparr>cart := Null\<rparr>) = Fin 0"
  by (simp add: totalAmount_sum computeTotalAmount_def)

text \<open>
  Claim C3. The discount amount is the total times the percentage over a hundred whenever
  the percentage is truthy, and exactly zero when the percentage is zero or absent.
  Nothing is clamped: on the cart of total 200, a percentage of -10 gives -20 and a
  percentage of 150 gives 300.
\<close>

theorem discountAmount_short_circuit:
  "discountAmount order =
     Fin (computeDiscountAmount (computeTotalAmount (cart order)) (discount_percentage order))
   \<and> discountAmount (order\<lparr>discount_percentage := Val 0\<rparr>) = Fin 0
   \<and> discountAmount (order\<lparr>discount_percentage := Undefined\<rparr>) = Fin 0
   \<and> discountAmount (order\<lparr>discount_percentage := Null\<rparr>) = Fin 0
   \<and> discountAmount (scenario_order (Val (- 10))) = Fin (- 20)
   \<and> discountAmount (scenario_order (Val 150)) = Fin 300"
  by (simp add: discountAmount_eq computeDiscountAmount_def computeTotalAmount_def
        line_total_def zero_if_missing_def scenario_order_def order_of_def item_of_def)

text \<open>
  Claim C7. For every order the final amount is the total amount minus the discount
  amount; both are numbers, so the difference is the numeric one.
\<close>

theorem finalAmount_identity:
  "finalAmount order = jsub (totalAmount order) (discountAmount order)
   \<and> (\<exists>t d. totalAmount order = Fin t \<and> discountAmount order = Fin d
            \<and> finalAmount order = Fin (t - d))"
  by (simp add: finalAmount_def totalAmount_sum discountAmount_eq)

section \<open>The absent order\<close>

text \<open>
  Claim C9. When the order is absent (\<open>undefined\<close> or \<open>null\<close>) the component
  returns \<open>null\<close> and raises nothing, before any computation; an order that is
  there never yields that result.
\<close>

theorem absent_order_renders_nothing:
  "OrderHistoryReceipt Undefined = Inr None
   \<and> OrderHistoryReceipt Null = Inr None
   \<and> OrderHistoryReceipt (Val order) \<noteq> Inr None"
  by (simp split: sum.splits)

section \<open>Rate display\<close>

text \<open>
  Claim C5. The rate display is \<open>0\<close> for no rate, the rate itself for a single rate,
  and the minimum and the maximum joined by a hyphen for two rates or more: no rates give
  \<open>0\<close>, the rate 7 gives \<open>7\<close>, and the rates 5, 12 and 18 give \<open>5-18\<close>.
\<close>

theorem formatGSTRates_range:
  "formatGSTRates [] = ''0''
   \<and> formatGSTRates [r] = Number_toString r
   \<and> formatGSTRates (x # y # zs) =
       Number_toString (Min (set (x # y # zs))) @ ''-''
         @ Number_toString (Max (set (x # y # zs)))
   \<and> formatGSTRates [7] = ''7''
   \<and> formatGSTRates [5, 12, 18] = ''5-18''"
proof -
  have "formatGSTRates (x # y # zs) =
       Number_toString (Min (set (x # y # zs))) @ ''-''
         @ Number_toString (Max (set (x # y # zs)))"
    by (simp only: formatGSTRates.simps Math_min_Min Math_max_Max)
  moreover have "formatGSTRates [7] = ''7''"
    by (simp add: Number_toString_def unsigned_toString_def digit_char_def)
  moreover have "formatGSTRates [5, 12, 18] = ''5-18''"
    by (simp add: Number_toString_def unsigned_toString_def digit_char_def)
  ultimately show ?thesis by simp
qed

section \<open>The tax summary\<close>

lemma calculateItemGST_Val:
  "calculateItemGST (Val it) =
     Inr \<lparr> item_sgst = item_tax sgst it, item_cgst = item_tax cgst it \<rparr>"
  by (simp add: calculateItemGST_def item_tax_def Let_def)

lemma calculateItemGST_missing:
  "calculateItemGST Undefined = Inl TypeError" "calculateItemGST Null = Inl TypeError"
  by (simp_all add: calculateItemGST_def)

lemma gstStep_Val:
  "gstStep s (Val it) =
     Inr \<lparr> baseAmount =
             jadd (baseAmount s) (jmul (ToNumber (quantity it)) (ToNumber (price it))),
           sgstAmount = jadd (sgstAmount s) (item_tax sgst it),
           cgstAmount = jadd (cgstAmount s) (item_tax cgst it),
           sgstRates = push_rate (or_zero (sgst it)) (sgstRates s),
           cgstRates = push_rate (or_zero (cgst it)) (cgstRates s) \<rparr>"
  by (simp add: gstStep_def calculateItemGST_Val)

lemma gstStep_missing:
  "gstStep s Undefined = Inl TypeError" "gstStep s Null = Inl TypeError"
  by (simp_all add: gstStep_def calculateItemGST_missing)

lemma gstReduce_Val_amounts:
  "\<exists>g. gstReduce s (map Val its) = Inr g
     \<and> sgstAmount g = foldl jadd (sgstAmount s) (map (item_tax sgst) its)
     \<and> cgstAmount g = foldl jadd (cgstAmount s) (map (item_tax cgst) its)"
proof (induction its arbitrary: s)
  case Nil
  then show ?case by simp
next
  case (Cons it its)
  obtain s' where s': "gstStep s (Val it) = Inr s'"
    "sgstAmount s' = jadd (sgstAmount s) (item_tax sgst it)"
    "cgstAmount s' = jadd (cgstAmount s) (item_tax cgst it)"
    by (simp add: gstStep_Val)
  from Cons [of s'] s' show ?case by simp
qed

lemma gstSummary_discount:
  "gstSummary (order\<lparr>discount_percentage := d\<rparr>) = gstSummary order"
  by (simp add: gstSummary_def)

text \<open>
  Claim C1. The discount does not reduce the tax. The tax summary of an order does not
  change with its discount percentage; for a cart of items the two tax amounts are the
  sums of the per-item components, each computed from price times quantity; and the
  discount is subtracted from the total amount only. For the cart of one item of price
  100, quantity 2 and both rates 9, with a discount of 10 percent, the discount is 20,
  the final amount 180, each tax amount 18 and the taxable value 144.
\<close>

theorem discount_does_not_reduce_tax:
  "gstSummary (order\<lparr>discount_percentage := d\<rparr>) = gstSummary order
   \<and> (\<exists>g. gstSummary (order\<lparr>cart := Val (map Val its), discount_percentage := d\<rparr>) = Inr g
         \<and> sgstAmount g = foldl jadd (Fin 0) (map (item_tax sgst) its)
         \<and> cgstAmount g = foldl jadd (Fin 0) (map (item_tax cgst) its))
   \<and> finalAmount order = jsub (totalAmount order) (discountAmount order)
   \<and> totals (scenario_order (Val 10)) =
       Inr \<lparr> shownTotal = Fin 200, shownDiscount = Some (Fin 20), taxableValue = Fin 144,
             cgstLabel = ''9'', shownCgst = Fin 18, sgstLabel = ''9'', shownSgst = Fin 18,
             totalTax = Fin 36, payable = Fin 180 \<rparr>"
proof -
  have "\<exists>g. gstSummary (order\<lparr>cart := Val (map Val its), discount_percentage := d\<rparr>) = Inr g
         \<and> sgstAmount g = foldl jadd (Fin 0) (map (item_tax sgst) its)
         \<and> cgstAmount g = foldl jadd (Fin 0) (map (item_tax cgst) its)"
    using gstReduce_Val_amounts [of gstInit its] by (simp add: gstSummary_def gstInit_def)
  moreover have "totals (scenario_order (Val 10)) =
       Inr \<lparr> shownTotal = Fin 200, shownDiscount = Some (Fin 20), taxableValue = Fin 144,
             cgstLabel = ''9'', shownCgst = Fin 18, sgstLabel = ''9'', shownSgst = Fin 18,
             totalTax = Fin 36, payable = Fin 180 \<rparr>"
    by (simp add: scenario_order_def eval_defs)
  ultimately show ?thesis
    by (simp add: gstSummary_discount finalAmount_def)
qed

text \<open>
  Claim C2, at the item of quantity 2 and both rates 9 whose price is missing. The
  per-item tax reads the price without a default: both components and the base amount of
  the summary are \<open>NaN\<close>, not zero, while the total amount of the same order, which
  defaults the price, is zero.
\<close>

theorem missing_price_gives_NaN:
  "calculateItemGST (Val (item_of Undefined (Val 2) (Val 9) (Val 9)))
     = Inr \<lparr> item_sgst = NaN, item_cgst = NaN \<rparr>
   \<and> gstSummary missing_price_order =
       Inr \<lparr> baseAmount = NaN, sgstAmount = NaN, cgstAmount = NaN,
             sgstRates = [9], cgstRates = [9] \<rparr>
   \<and> totalAmount missing_price_order = Fin 0"
  by (simp add: missing_price_order_def eval_defs)

text \<open>
  Claim C8, at an order whose cart holds \<open>null\<close> and at an order whose item has no
  quantity. On the first the component raises a \<open>TypeError\<close>, although the total
  amount of that order is computed and is zero; on the second the taxable value, both
  tax amounts and the total tax are \<open>NaN\<close>.
\<close>

theorem calculator_not_total:
  "OrderHistoryReceipt (Val null_item_order) = Inl TypeError
   \<and> totalAmount null_item_order = Fin 0
   \<and> OrderHistoryReceipt (Val missing_quantity_order) =
       Inr (Some \<lparr> shownTotal = Fin 0, shownDiscount = None, taxableValue = NaN,
                   cgstLabel = ''9'', shownCgst = NaN, sgstLabel = ''9'', shownSgst = NaN,
                   totalTax = NaN, payable = Fin 0 \<rparr>)"
  by (simp add: null_item_order_def missing_quantity_order_def eval_defs)

section \<open>The two subtotals\<close>

lemma present_product:
  "q \<noteq> Undefined \<Longrightarrow> p \<noteq> Undefined \<Longrightarrow>
     jmul (ToNumber q) (ToNumber p) = jmul (Fin (or_zero q)) (Fin (or_zero p))"
  by (cases q; cases p) simp_all

lemma gstReduce_baseAmount:
  "list_all fields_present items \<Longrightarrow>
     \<exists>g. gstReduce s items = Inr g \<and> baseAmount g = foldl totalStep (baseAmount s) items"
proof (induction items arbitrary: s)
  case Nil
  then show ?case by simp
next
  case (Cons item items)
  then obtain it where it: "item = Val it" "quantity it \<noteq> Undefined" "price it \<noteq> Undefined"
    by (cases item) (auto simp: fields_present_def)
  obtain s' where s': "gstStep s item = Inr s'"
    "baseAmount s' = jadd (baseAmount s) (jmul (ToNumber (quantity it)) (ToNumber (price it)))"
    using it by (simp add: gstStep_Val)
  have "baseAmount s' = totalStep (baseAmount s) item"
    using it s'(2) by (simp add: totalStep_def present_product)
  moreover from Cons have "list_all fields_present items" by simp
  ultimately show ?case
    using Cons.IH [of s'] s'(1) by simp
qed

text \<open>
  Claim C10. For every order whose cart entries all have their quantity and their price,
  the tax summary is computed and its base amount equals the total amount.
\<close>

theorem subtotals_agree:
  "list_all fields_present (or_empty (cart order)) \<Longrightarrow>
     \<exists>g. gstSummary order = Inr g \<and> baseAmount g = totalAmount order"
  using gstReduce_baseAmount [of "or_empty (cart order)" gstInit]
  by (simp add: gstSummary_def totalAmount_def gstInit_def)

theorem subtotals_agree_witness:
  "list_all fields_present (or_empty (cart null_price_order))
   \<and> (\<exists>g. gstSummary null_price_order = Inr g \<and> baseAmount g = totalAmount null_price_order)
   \<and> totalAmount null_price_order = Fin 150"
proof -
  have h: "list_all fields_present (or_empty (cart null_price_order))"
    by (simp add: null_price_order_def order_of_def item_of_def fields_present_def)
  have "totalAmount null_price_order = Fin 150"
    by (simp add: null_price_order_def eval_defs)
  with h subtotals_agree [OF h] show ?thesis by simp
qed

section \<open>The rate sets\<close>

lemma first_seen_filter: "first_seen (filter P xs) = filter P (first_seen xs)"
proof (induction xs)
  case Nil
  then show ?case by simp
next
  case (Cons x xs)
  show ?case
  proof (cases "P x")
    case True
    then show ?thesis using Cons by (simp add: conj_commute)
  next
    case False
    then have "filter P (filter (\<lambda>y. y \<noteq> x) (first_seen xs)) = filter P (first_seen xs)"
      by (auto intro: filter_cong)
    with False Cons show ?thesis by simp
  qed
qed

lemma set_first_seen [simp]: "set (first_seen xs) = set xs"
  by (induction xs) auto

lemma distinct_first_seen [simp]: "distinct (first_seen xs)"
  by (induction xs) auto

lemma foldl_push_rate:
  "foldl (\<lambda>a r. push_rate r a) acc rs
     = acc @ first_seen (filter (\<lambda>r. r > 0 \<and> r \<notin> set acc) rs)"
proof (induction rs arbitrary: acc)
  case Nil
  then show ?case by simp
next
  case (Cons r rs)
  show ?case
  proof (cases "r > 0 \<and> r \<notin> set acc")
    case True
    have "filter (\<lambda>x. x > 0 \<and> x \<notin> set (acc @ [r])) rs
            = filter (\<lambda>y. y \<noteq> r) (filter (\<lambda>x. x > 0 \<and> x \<notin> set acc) rs)"
      by (auto intro: filter_cong)
    then have "first_seen (filter (\<lambda>x. x > 0 \<and> x \<notin> set (acc @ [r])) rs)
            = filter (\<lambda>y. y \<noteq> r) (first_seen (filter (\<lambda>x. x > 0 \<and> x \<notin> set acc) rs))"
      by (simp only: first_seen_filter)
    moreover have "foldl (\<lambda>a r. push_rate r a) acc (r # rs)
            = foldl (\<lambda>a r. push_rate r a) (acc @ [r]) rs"
      using True by (simp add: push_rate_def)
    moreover have "first_seen (filter (\<lambda>x. x > 0 \<and> x \<notin> set acc) (r # rs))
            = r # filter (\<lambda>y. y \<noteq> r) (first_seen (filter (\<lambda>x. x > 0 \<and> x \<notin> set acc) rs))"
      using True by simp
    ultimately show ?thesis
      using Cons [of "acc @ [r]"] by (simp only: append_assoc append_Cons append_Nil)
  next
    case False
    with Cons [of acc] show ?thesis by (auto simp: push_rate_def)
  qed
qed

lemma gstReduce_sgstRates:
  "gstReduce s items = Inr g \<Longrightarrow>
     sgstRates g = foldl (\<lambda>a r. push_rate r a) (sgstRates s)
                     (map (\<lambda>item. or_zero (opt_chain sgst item)) items)"
proof (induction items arbitrary: s)
  case Nil
  then show ?case by simp
next
  case (Cons item items)
  then show ?case
    by (cases item) (auto simp: gstStep_missing gstStep_Val split: sum.splits)
qed

lemma gstReduce_cgstRates:
  "gstReduce s items = Inr g \<Longrightarrow>
     cgstRates g = foldl (\<lambda>a r. push_rate r a) (cgstRates s)
                     (map (\<lambda>item. or_zero (opt_chain cgst item)) items)"
proof (induction items arbitrary: s)
  case Nil
  then show ?case by simp
next
  case (Cons item items)
  then show ?case
    by (cases item) (auto simp: gstStep_missing gstStep_Val split: sum.splits)
qed

lemma gstSummary_sgstRates:
  "gstSummary order = Inr g \<Longrightarrow> sgstRates g = seen_rates sgst (or_empty (cart order))"
  by (simp add: gstSummary_def gstReduce_sgstRates foldl_push_rate gstInit_def seen_rates_def)

lemma gstSummary_cgstRates:
  "gstSummary order = Inr g \<Longrightarrow> cgstRates g = seen_rates cgst (or_empty (cart order))"
  by (simp add: gstSummary_def gstReduce_cgstRates foldl_push_rate gstInit_def seen_rates_def)

lemma seen_rates_member:
  assumes "r \<in> set (seen_rates rate items)"
  shows "r > 0 \<and> (\<exists>it. Val it \<in> set items \<and> rate it = Val r)"
proof -
  from assms obtain item
    where i: "item \<in> set items" "or_zero (opt_chain rate item) = r" "r > 0"
    by (auto simp: seen_rates_def)
  have "\<exists>it. item = Val it" using i(2,3) by (cases item) auto
  then obtain it where it: "item = Val it" by blast
  with i have "rate it = Val r" by (cases "rate it") auto
  with i it show ?thesis by auto
qed

lemma rates_order_summary:
  "gstSummary rates_order =
     Inr \<lparr> baseAmount = Fin 90, sgstAmount = Fin (87 / 10), cgstAmount = Fin 0,
           sgstRates = [5, 12], cgstRates = [] \<rparr>"
  by (simp add: rates_order_def eval_defs)

text \<open>
  Claim C4. Whenever the tax summary of a cart is computed, each of its two rate sets
  is the list of the strictly positive rates of the items in first-seen order with every
  rate once: it has no duplicates, and each of its rates is positive and is the rate of
  an item of the cart. Items with the first rates 5, 5 and 12 give the two rates 5 and 12.
\<close>

theorem rate_sets_invariant:
  assumes "gstSummary order = Inr g"
  shows "sgstRates g = seen_rates sgst (or_empty (cart order))
   \<and> cgstRates g = seen_rates cgst (or_empty (cart order))
   \<and> distinct (sgstRates g) \<and> distinct (cgstRates g)
   \<and> (\<forall>r \<in> set (sgstRates g).
         r > 0 \<and> (\<exists>it. Val it \<in> set (or_empty (cart order)) \<and> sgst it = Val r))
   \<and> (\<forall>r \<in> set (cgstRates g).
         r > 0 \<and> (\<exists>it. Val it \<in> set (or_empty (cart order)) \<and> cgst it = Val r))
   \<and> map_sum id sgstRates (gstSummary rates_order) = Inr [5, 12]"
proof -
  have s: "sgstRates g = seen_rates sgst (or_empty (cart order))"
    using assms by (rule gstSummary_sgstRates)
  have c: "cgstRates g = seen_rates cgst (or_empty (cart order))"
    using assms by (rule gstSummary_cgstRates)
  have "distinct (sgstRates g)" "distinct (cgstRates g)"
    by (simp_all add: s c seen_rates_def)
  moreover have "\<forall>r \<in> set (sgstRates g).
         r > 0 \<and> (\<exists>it. Val it \<in> set (or_empty (cart order)) \<and> sgst it = Val r)"
    unfolding s by (blast dest: seen_rates_member)
  moreover have "\<forall>r \<in> set (cgstRates g).
         r > 0 \<and> (\<exists>it. Val it \<in> set (or_empty (cart order)) \<and> cgst it = Val r)"
    unfolding c by (blast dest: seen_rates_member)
  moreover have "map_sum id sgstRates (gstSummary rates_order) = Inr [5, 12]"
    by (simp add: rates_order_summary)
  ultimately show ?thesis using s c by simp
qed

theorem rate_sets_invariant_witness:
  "gstSummary rates_order =
     Inr \<lparr> baseAmount = Fin 90, sgstAmount = Fin (87 / 10), cgstAmount = Fin 0,
           sgstRates = [5, 12], cgstRates = [] \<rparr>
   \<and> seen_rates sgst (or_empty (cart rates_order)) = [5, 12]
   \<and> seen_rates cgst (or_empty (cart rates_order)) = []
   \<and> distinct [5, 12 :: rat]
   \<and> (\<exists>it. Val it \<in> set (or_empty (cart rates_order)) \<and> sgst it = Val 5)
   \<and> (\<exists>it. Val it \<in> set (or_empty (cart rates_order)) \<and> sgst it = Val 12)"
proof -
  note h = rates_order_summary
  have a: "seen_rates sgst (or_empty (cart rates_order)) = [5, 12]"
    "seen_rates cgst (or_empty (cart rates_order)) = []"
    using rate_sets_invariant [OF h] by simp_all
  have "\<forall>r \<in> set (sgstRates \<lparr> baseAmount = Fin 90, sgstAmount = Fin (87 / 10),
           cgstAmount = Fin 0, sgstRates = [5, 12], cgstRates = [] \<rparr>).
         r > 0 \<and> (\<exists>it. Val it \<in> set (or_empty (cart rates_order)) \<and> sgst it = Val r)"
    using rate_sets_invariant [OF h] by blast
  then have b: "\<exists>it. Val it \<in> set (or_empty (cart rates_order)) \<and> sgst it = Val 5"
    "\<exists>it. Val it \<in> set (or_empty (cart rates_order)) \<and> sgst it = Val 12"
    by simp_all
  from h a b show ?thesis by simp
qed

end
